theory Spec2Isabelle
  imports Complex_Main
begin

section \<open>The postgresql\_vacuum module: data\<close>

text \<open>
  The module \<^verbatim>\<open>postgresql_vacuum.py\<close> composes one \<^verbatim>\<open>VACUUM\<close> / \<^verbatim>\<open>ANALYZE\<close> statement
  from the module parameters and the rows of \<^verbatim>\<open>pg_stat_user_tables\<close>, and either records
  it (check mode) or hands it to the database. The embedding follows \<^verbatim>\<open>Vacuum.do\<close>
  statement by statement; every \<^verbatim>\<open>raise\<close> and every \<^verbatim>\<open>fail_json\<close> is an \<open>Inl\<close> result.
\<close>

datatype error =
  IndexError
  | FailJson string
  | ExecutionError string
  | InvalidOptionCombination
  | SQLParseError
  | OverflowError

text \<open>
  A naive UTC \<^verbatim>\<open>datetime\<close> is identified with the number of seconds between it and
  \<^verbatim>\<open>datetime(1970,1,1)\<close>, so that \<^verbatim>\<open>(d - datetime(1970,1,1)).total_seconds()\<close> is the
  value itself. The seconds are exact rationals: the rounding of Python floats is not
  modelled. What is modelled of the floats is the \<^verbatim>\<open>OverflowError\<close> of subtracting an
  integer too large for a float (\<open>float_overflow\<close> below).
\<close>

type_synonym datetime = rat

text \<open>One line of the view \<^verbatim>\<open>pg_stat_user_tables\<close>, with the columns the module reads.\<close>

record relation_stat =
  schemaname :: string
  relname :: string
  last_vacuum :: "datetime option"
  last_autovacuum :: "datetime option"
  last_analyze :: "datetime option"
  last_autoanalyze :: "datetime option"

text \<open>
  A fetched row. Columns 0 and 1 are names (strings); the columns from 2 on hold a
  timestamp or \<^verbatim>\<open>None\<close>. Reading a column past the end raises \<^verbatim>\<open>IndexError\<close>, as
  indexing a psycopg2 row with an integer does.
\<close>

record row =
  row0 :: string
  row1 :: string
  row_from2 :: "datetime option list"

definition row_item :: "row \<Rightarrow> nat \<Rightarrow> error + datetime option" where
  "row_item r k =
     (if 2 \<le> k \<and> k - 2 < length (row_from2 r) then Inr (row_from2 r ! (k - 2))
      else Inl IndexError)"

text \<open>The module parameters (\<^verbatim>\<open>module.params\<close>) and \<^verbatim>\<open>module.check_mode\<close>.\<close>

record module =
  tables :: "string list option"
  skip_period :: "int option"
  analyze_only :: "bool option"
  full :: "bool option"
  additional_args :: "string option"
  check_mode :: bool

text \<open>Python truth values of the parameter types: \<^verbatim>\<open>None\<close>, \<^verbatim>\<open>False\<close>, \<^verbatim>\<open>0\<close>, \<^verbatim>\<open>''\<close> and \<^verbatim>\<open>[]\<close> are false.\<close>

fun truthy_bool :: "bool option \<Rightarrow> bool" where
  "truthy_bool None = False"
| "truthy_bool (Some b) = b"

fun truthy_int :: "int option \<Rightarrow> bool" where
  "truthy_int None = False"
| "truthy_int (Some n) = (n \<noteq> 0)"

fun truthy_str :: "string option \<Rightarrow> bool" where
  "truthy_str None = False"
| "truthy_str (Some s) = (s \<noteq> [])"

fun truthy_list :: "'a list option \<Rightarrow> bool" where
  "truthy_list None = False"
| "truthy_list (Some xs) = (xs \<noteq> [])"

fun elems :: "'a list option \<Rightarrow> 'a list" where
  "elems None = []"
| "elems (Some xs) = xs"

subsection \<open>String helpers of Python\<close>

abbreviation dq :: char where
  "dq \<equiv> CHR 0x22"

abbreviation sq :: char where
  "sq \<equiv> CHR 0x27"

text \<open>\<^verbatim>\<open>sep.join(xs)\<close>.\<close>

fun join :: "string \<Rightarrow> string list \<Rightarrow> string" where
  "join sep [] = []"
| "join sep [x] = x"
| "join sep (x # y # ys) = x @ sep @ join sep (y # ys)"

text \<open>\<^verbatim>\<open>s.split(c)\<close> for a separator of one character: never an empty list.\<close>

fun split :: "char \<Rightarrow> string \<Rightarrow> string list" where
  "split c [] = [[]]"
| "split c (x # xs) =
     (if x = c then [] # split c xs
      else (case split c xs of
              [] \<Rightarrow> [[x]]
            | w # ws \<Rightarrow> (x # w) # ws))"

text \<open>\<^verbatim>\<open>s.strip(chars)\<close>: the characters of \<open>chars\<close> are removed at both ends.\<close>

definition strip :: "char list \<Rightarrow> string \<Rightarrow> string" where
  "strip chars s =
     rev (dropWhile (\<lambda>c. c \<in> set chars) (rev (dropWhile (\<lambda>c. c \<in> set chars) s)))"

text \<open>
  \<^verbatim>\<open>s.strip()\<close> removes whitespace at both ends. The strings of the model are ASCII; the
  ASCII characters that are whitespace for a Python 3 \<^verbatim>\<open>str\<close> are the space, the
  characters 9 to 13 and the separators 28 to 31.
\<close>

definition whitespace :: "char list" where
  "whitespace = [CHR 0x20, CHR 0x09, CHR 0x0A, CHR 0x0B, CHR 0x0C, CHR 0x0D,
                 CHR 0x1C, CHR 0x1D, CHR 0x1E, CHR 0x1F]"

text \<open>\<^verbatim>\<open>xs[-2]\<close> and \<^verbatim>\<open>xs[-1]\<close>.\<close>

definition item_minus2 :: "'a list \<Rightarrow> error + 'a" where
  "item_minus2 xs = (if 2 \<le> length xs then Inr (xs ! (length xs - 2)) else Inl IndexError)"

definition item_minus1 :: "'a list \<Rightarrow> error + 'a" where
  "item_minus1 xs = (if 1 \<le> length xs then Inr (xs ! (length xs - 1)) else Inl IndexError)"

text \<open>\<^verbatim>\<open>'"%s"."%s"' % (schema, table)\<close>.\<close>

definition quoted_name :: "string \<Rightarrow> string \<Rightarrow> string" where
  "quoted_name schema table = [dq] @ schema @ [dq] @ ''.'' @ [dq] @ table @ [dq]"

section \<open>The database and \<^verbatim>\<open>exec_sql\<close>\<close>

text \<open>
  The database behind the cursor is a parameter of the model: the content of
  \<^verbatim>\<open>information_schema.tables\<close> (schema and name of every relation), the content of
  \<^verbatim>\<open>pg_stat_user_tables\<close>, and which statements the server executes without an error.
  The cursor also keeps what it was asked, in order, so that theorems can speak about
  the interactions of a run.
\<close>

datatype interaction =
  Connect
  | Fetch string
  | Execute string
  | Close

record cursor =
  information_schema_tables :: "(string \<times> string) list"
  pg_stat_user_tables :: "relation_stat list"
  runs :: "string \<Rightarrow> bool"
  received :: "interaction list"

text \<open>The statements handed to the server for execution, of all interactions.\<close>

fun executed :: "interaction list \<Rightarrow> string list" where
  "executed [] = []"
| "executed (Execute q # xs) = q # executed xs"
| "executed (_ # xs) = executed xs"

text \<open>The attributes of a \<^verbatim>\<open>Vacuum\<close> object (the module is passed to each method).\<close>

record vacuum =
  cursor :: cursor
  executed_queries :: "string list"
  changed :: bool
  query_frag :: "string list"
  stat_user_tables :: "row list"

definition sent :: "interaction \<Rightarrow> vacuum \<Rightarrow> vacuum" where
  "sent x v = v\<lparr>cursor := (cursor v)\<lparr>received := received (cursor v) @ [x]\<rparr>\<rparr>"

text \<open>
  Modelled from the spec: \<^verbatim>\<open>exec_sql\<close> of \<^verbatim>\<open>ansible.module_utils.postgres\<close> is not among
  the sources. The spec names its three uses: the Relation Catalog Reader's
  \<^verbatim>\<open>fetchStats() -> sequence of RelationStat\<close> and \<^verbatim>\<open>exists(schema, name) -> bool\<close>, and the
  Statement Executor's \<^verbatim>\<open>execute(statement) -> Result<RowsAffected, ExecutionError>\<close>,
  whose error is passed on with the statement that failed. The two reads are called with
  \<^verbatim>\<open>add_to_executed=False\<close>; the execution (\<^verbatim>\<open>ddl=True\<close>) returns \<^verbatim>\<open>True\<close> and adds the
  statement to \<^verbatim>\<open>executed_queries\<close>.
\<close>

definition exec_sql_stats :: "vacuum \<Rightarrow> string \<Rightarrow> row list \<times> vacuum" where
  "exec_sql_stats obj query =
     (map (\<lambda>s. \<lparr>row0 = schemaname s, row1 = relname s,
                 row_from2 = [last_vacuum s, last_autovacuum s, last_analyze s, last_autoanalyze s]\<rparr>)
          (pg_stat_user_tables (cursor obj)),
      sent (Fetch query) obj)"

definition exec_sql_exists :: "vacuum \<Rightarrow> string \<Rightarrow> string \<Rightarrow> string \<Rightarrow> bool \<times> vacuum" where
  "exec_sql_exists obj query table_schema table_name =
     ((table_schema, table_name) \<in> set (information_schema_tables (cursor obj)),
      sent (Fetch query) obj)"

definition exec_sql_ddl :: "vacuum \<Rightarrow> string \<Rightarrow> (error + bool) \<times> vacuum" where
  "exec_sql_ddl obj query =
     (if runs (cursor obj) query
      then (Inr True, (sent (Execute query) obj)\<lparr>executed_queries := executed_queries obj @ [query]\<rparr>)
      else (Inl (ExecutionError query), sent (Execute query) obj))"

section \<open>The class \<^verbatim>\<open>Vacuum\<close>\<close>

text \<open>\<^verbatim>\<open>Vacuum.get_user_tables_stat\<close>: six columns are selected, so a row has the columns 0 to 5.\<close>

definition get_user_tables_stat :: "vacuum \<Rightarrow> row list \<times> vacuum" where
  "get_user_tables_stat self =
     (let query = ''SELECT schemaname, relname, ''
                  @ ''last_vacuum AT TIME ZONE 'UTC', ''
                  @ ''last_autovacuum AT TIME ZONE 'UTC', ''
                  @ ''last_analyze AT TIME ZONE 'UTC', ''
                  @ ''last_autoanalyze AT TIME ZONE 'UTC' ''
                  @ ''FROM pg_stat_user_tables''
      in exec_sql_stats self query)"

text \<open>\<^verbatim>\<open>Vacuum.__init__\<close>.\<close>

definition Vacuum :: "cursor \<Rightarrow> vacuum" where
  "Vacuum cur =
     (let self = \<lparr>cursor = cur, executed_queries = [], changed = False, query_frag = [],
                  stat_user_tables = []\<rparr>;
          (rows, self) = get_user_tables_stat self
      in self\<lparr>stat_user_tables := rows\<rparr>)"

text \<open>
  \<^verbatim>\<open>Vacuum.__check_table\<close>: the name is split at the dots, the last two parts lose their
  double quotes, and the relation is looked up; \<^verbatim>\<open>fail_json\<close> ends the run.
\<close>

definition check_table :: "vacuum \<Rightarrow> string \<Rightarrow> (error + bool) \<times> vacuum" where
  "check_table self tblname =
     (let tmp = split CHR ''.'' tblname in
      case item_minus2 tmp of
        Inl e \<Rightarrow> (Inl e, self)
      | Inr t2 \<Rightarrow>
        (let table_schema = strip [dq] t2 in
         case item_minus1 tmp of
           Inl e \<Rightarrow> (Inl e, self)
         | Inr t1 \<Rightarrow>
           (let table_name = strip [dq] t1;
                query = ''SELECT 1 FROM information_schema.tables ''
                        @ ''WHERE table_schema = '' @ [sq] @ table_schema @ [sq] @ '' ''
                        @ ''AND table_name = '' @ [sq] @ table_name @ [sq];
                (found, self) = exec_sql_exists self query table_schema table_name
            in if \<not> found
               then (Inl (FailJson (''table '' @ table_name @ '' in schema '' @ table_schema
                                    @ '' does not exist'')), self)
               else (Inr True, self))))"

text \<open>The loop \<^verbatim>\<open>for tbl in tbl_list: self.__check_table(tbl)\<close>.\<close>

fun check_tables :: "vacuum \<Rightarrow> string list \<Rightarrow> (error + unit) \<times> vacuum" where
  "check_tables self [] = (Inr (), self)"
| "check_tables self (tbl # tbls) =
     (case check_table self tbl of
        (Inl e, self) \<Rightarrow> (Inl e, self)
      | (Inr _, self) \<Rightarrow> check_tables self tbls)"

text \<open>
  The first statements of \<^verbatim>\<open>do\<close> after the checks: the list \<^verbatim>\<open>opt_list\<close> with the keyword
  of the mode and the additional arguments.
\<close>

definition opt_list_of :: "module \<Rightarrow> string list" where
  "opt_list_of m =
     (let opt_list = [];
          opt_list = (if truthy_bool (analyze_only m) then opt_list @ [''ANALYZE'']
                      else if truthy_bool (full m) then opt_list @ [''VACUUM_FULL'']
                      else opt_list @ [''VACUUM'']);
          opt_list = (if truthy_str (additional_args m)
                      then opt_list @ [case additional_args m of Some a \<Rightarrow> a | None \<Rightarrow> []]
                      else opt_list)
      in opt_list)"

text \<open>\<^verbatim>\<open>last_x = 0\<close>, replaced by the seconds of the column when the column is not \<^verbatim>\<open>None\<close>.\<close>

fun seconds_or_0 :: "datetime option \<Rightarrow> rat" where
  "seconds_or_0 None = 0"
| "seconds_or_0 (Some d) = d"

text \<open>
  \<^verbatim>\<open>float - int\<close> converts the integer to a float first and raises \<^verbatim>\<open>OverflowError\<close> when
  the integer rounds (to nearest, ties to even) past the largest double
  \<open>2 ^ 1024 - 2 ^ 971\<close>.
\<close>

definition float_overflow :: "int \<Rightarrow> bool" where
  "float_overflow n = (2 ^ 1024 - 2 ^ 970 \<le> \<bar>n\<bar>)"

text \<open>
  The block \<^verbatim>\<open>if not full and skip_period: ...\<close> of the loop body, for one row. \<open>now\<close> is
  what \<^verbatim>\<open>datetime.utcnow()\<close> returns in this iteration. The result is \<open>None\<close> when the
  block ends in \<^verbatim>\<open>continue\<close>, and otherwise the value of \<^verbatim>\<open>self.changed\<close> after it.
\<close>

definition skip_period_block :: "module \<Rightarrow> datetime \<Rightarrow> row \<Rightarrow> bool \<Rightarrow> error + bool option" where
  "skip_period_block m now row chg =
     (case skip_period m of
        None \<Rightarrow> Inr (Some chg)
      | Some period \<Rightarrow>
        if \<not> truthy_bool (full m) \<and> period \<noteq> 0 then
          if float_overflow period then Inl OverflowError
          else
          (let skip_tstamp = now - of_int period in
           if truthy_bool (analyze_only m) then
             (case row_item row 5 of
                Inl e \<Rightarrow> Inl e
              | Inr r5 \<Rightarrow>
                (let last_analyze = seconds_or_0 r5 in
                 case row_item row 6 of
                   Inl e \<Rightarrow> Inl e
                 | Inr r6 \<Rightarrow>
                   (let last_autoanalyze = seconds_or_0 r6 in
                    if skip_tstamp > last_analyze \<or> skip_tstamp > last_autoanalyze
                    then Inr None
                    else Inr (Some (if check_mode m then True else chg)))))
           else
             (case row_item row 3 of
                Inl e \<Rightarrow> Inl e
              | Inr r3 \<Rightarrow>
                (let last_vacuum = seconds_or_0 r3 in
                 case row_item row 4 of
                   Inl e \<Rightarrow> Inl e
                 | Inr r4 \<Rightarrow>
                   (let last_autovacuum = seconds_or_0 r4 in
                    if skip_tstamp > last_vacuum \<or> skip_tstamp > last_autovacuum
                    then Inr None
                    else Inr (Some (if check_mode m then True else chg))))))
        else Inr (Some chg))"

text \<open>
  One iteration of \<^verbatim>\<open>for row in self.stat_user_tables\<close>, on the pair of \<^verbatim>\<open>tmp_tbl_list\<close> and
  \<^verbatim>\<open>self.changed\<close>. A \<^verbatim>\<open>continue\<close> leaves the pair as it is.
\<close>

definition row_step ::
  "module \<Rightarrow> string list option \<Rightarrow> datetime \<Rightarrow> row \<Rightarrow> string list \<times> bool
     \<Rightarrow> error + string list \<times> bool" where
  "row_step m tbl_list now row st =
     (let schema = row0 row; table = row1 row; (tmp_tbl_list, chg) = st in
      if truthy_list tbl_list \<and> quoted_name schema table \<notin> set (elems tbl_list) then Inr st
      else
        (case skip_period_block m now row chg of
           Inl e \<Rightarrow> Inl e
         | Inr None \<Rightarrow> Inr st
         | Inr (Some chg) \<Rightarrow>
           if truthy_list tbl_list then Inr (tmp_tbl_list @ [quoted_name schema table], chg)
           else Inr (tmp_tbl_list, chg)))"

text \<open>
  The loop. \<open>clock i\<close> is the reading of \<^verbatim>\<open>datetime.utcnow()\<close> in the iteration of row
  number \<open>i\<close> (the source reads the clock anew for every row it filters).
\<close>

fun rows_loop ::
  "module \<Rightarrow> string list option \<Rightarrow> (nat \<Rightarrow> datetime) \<Rightarrow> nat \<Rightarrow> row list \<Rightarrow> string list \<times> bool
     \<Rightarrow> error + string list \<times> bool" where
  "rows_loop m tbl_list clock i [] st = Inr st"
| "rows_loop m tbl_list clock i (row # rows) st =
     (case row_step m tbl_list (clock i) row st of
        Inl e \<Rightarrow> Inl e
      | Inr st \<Rightarrow> rows_loop m tbl_list clock (Suc i) rows st)"

text \<open>
  The end of \<^verbatim>\<open>do\<close> before the execution: the joined target list is appended to
  \<^verbatim>\<open>opt_list\<close> when \<^verbatim>\<open>tmp_tbl_list\<close> is not empty, and the list is joined with spaces.
\<close>

definition query_of :: "string list \<Rightarrow> string list \<Rightarrow> string" where
  "query_of opt_list tmp_tbl_list =
     (let opt_list = (if tmp_tbl_list \<noteq> [] then opt_list @ [join '', '' tmp_tbl_list]
                      else opt_list)
      in join '' '' opt_list)"

text \<open>
  \<^verbatim>\<open>Vacuum.do\<close>. An exception or \<^verbatim>\<open>fail_json\<close> ends the run with the object as it was at
  that moment.
\<close>

definition do :: "module \<Rightarrow> (nat \<Rightarrow> datetime) \<Rightarrow> vacuum \<Rightarrow> string list option \<Rightarrow> (error + unit) \<times> vacuum" where
  "do m clock self tbl_list =
     (case (if truthy_list tbl_list then check_tables self (elems tbl_list) else (Inr (), self)) of
        (Inl e, self) \<Rightarrow> (Inl e, self)
      | (Inr _, self) \<Rightarrow>
        (let opt_list = opt_list_of m in
         case rows_loop m tbl_list clock 0 (stat_user_tables self) ([], changed self) of
           Inl e \<Rightarrow> (Inl e, self)
         | Inr (tmp_tbl_list, chg) \<Rightarrow>
           (let self = self\<lparr>changed := chg\<rparr>;
                query = query_of opt_list tmp_tbl_list
            in if check_mode m then
                 (let self = (if \<not> truthy_int (skip_period m) then self\<lparr>changed := True\<rparr> else self)
                  in (Inr (), self\<lparr>executed_queries := executed_queries self @ [query]\<rparr>))
               else
                 (case exec_sql_ddl self query of
                    (Inl e, self) \<Rightarrow> (Inl e, self)
                  | (Inr ok, self) \<Rightarrow>
                    if ok then (Inr (), self\<lparr>changed := True\<rparr>) else (Inr (), self)))))"

section \<open>The module's entry point\<close>

text \<open>
  \<^verbatim>\<open>transform_tables_representation\<close>. \<^verbatim>\<open>pg_quote_identifier\<close> of
  \<^verbatim>\<open>ansible.module_utils.database\<close> is not among the sources and is a parameter here; it
  may raise.
\<close>

fun transform_tables_representation ::
  "(string \<Rightarrow> string \<Rightarrow> error + string) \<Rightarrow> string list \<Rightarrow> error + string list" where
  "transform_tables_representation pg_quote_identifier [] = Inr []"
| "transform_tables_representation pg_quote_identifier (table # tbl_list) =
     (case (if CHR ''.'' \<notin> set table
            then pg_quote_identifier (''public.'' @ strip whitespace table) ''table''
            else pg_quote_identifier (strip whitespace table) ''table'') of
        Inl e \<Rightarrow> Inl e
      | Inr t \<Rightarrow>
        (case transform_tables_representation pg_quote_identifier tbl_list of
           Inl e \<Rightarrow> Inl e
         | Inr ts \<Rightarrow> Inr (t # ts)))"

text \<open>
  Modelled from the spec: the class \<^verbatim>\<open>AnsibleModule\<close> of \<^verbatim>\<open>ansible.module_utils.basic\<close>, which
  \<^verbatim>\<open>main\<close> builds with \<^verbatim>\<open>mutually_exclusive=[['full', 'analyze_only'], ['full', 'skip_period']]\<close>,
  is not among the sources. The spec: \<^verbatim>\<open>InvalidOptionCombination\<close> is \<^verbatim>\<open>full\<close> with
  \<^verbatim>\<open>analyze-only\<close>, or \<^verbatim>\<open>full\<close> with \<^verbatim>\<open>skip-period\<close>, detected before any store interaction
  and fatal. An option is supplied when it is not \<open>None\<close>.
\<close>

definition AnsibleModule :: "module \<Rightarrow> error + module" where
  "AnsibleModule supplied =
     (if full supplied \<noteq> None \<and> analyze_only supplied \<noteq> None then Inl InvalidOptionCombination
      else if full supplied \<noteq> None \<and> skip_period supplied \<noteq> None then Inl InvalidOptionCombination
      else Inr supplied)"

text \<open>
  \<^verbatim>\<open>main\<close>. The result is what the process reports (\<^verbatim>\<open>exit_json\<close> with \<^verbatim>\<open>changed\<close> and
  \<^verbatim>\<open>queries\<close>, or the failure) together with everything the database was asked.
  \<^verbatim>\<open>transform_tables_representation\<close> rewrites the list \<^verbatim>\<open>module.params['tables']\<close> in place.
\<close>

definition main ::
  "(string \<Rightarrow> string \<Rightarrow> error + string) \<Rightarrow> (nat \<Rightarrow> datetime) \<Rightarrow> cursor \<Rightarrow> module
     \<Rightarrow> (error + bool \<times> string list) \<times> interaction list" where
  "main pg_quote_identifier clock db supplied =
     (case AnsibleModule supplied of
        Inl e \<Rightarrow> (Inl e, received db)
      | Inr amodule \<Rightarrow>
        (let cur = db\<lparr>received := received db @ [Connect]\<rparr>;
             vacuum = Vacuum cur
         in case (if truthy_list (tables amodule)
                  then (case transform_tables_representation pg_quote_identifier
                               (elems (tables amodule)) of
                          Inl e \<Rightarrow> Inl e
                        | Inr ts \<Rightarrow> Inr (amodule\<lparr>tables := Some ts\<rparr>, Some ts))
                  else Inr (amodule, None)) of
              Inl e \<Rightarrow> (Inl e, received (cursor vacuum))
            | Inr (amodule, tbl_list) \<Rightarrow>
              (case do amodule clock vacuum tbl_list of
                 (Inl e, vacuum) \<Rightarrow> (Inl e, received (cursor vacuum))
               | (Inr _, vacuum) \<Rightarrow>
                 (Inr (changed vacuum, executed_queries vacuum),
                  received (cursor vacuum) @ [Close]))))"

text \<open>The exit status of the process: \<^verbatim>\<open>exit_json\<close> ends it with 0, a failure with 1.\<close>

fun exit_status :: "error + 'a \<Rightarrow> nat" where
  "exit_status (Inl e) = 1"
| "exit_status (Inr r) = 0"

section \<open>Notions of the specification\<close>

text \<open>
  The mode of a request, as the chain \<^verbatim>\<open>if analyze_only / elif full / else\<close> of \<^verbatim>\<open>do\<close>
  reads it off the parameters.
\<close>

datatype mode = VACUUM | VACUUM_FULL | ANALYZE_ONLY

definition mode_of :: "module \<Rightarrow> mode" where
  "mode_of m =
     (if truthy_bool (analyze_only m) then ANALYZE_ONLY
      else if truthy_bool (full m) then VACUUM_FULL
      else VACUUM)"

fun keyword :: "mode \<Rightarrow> string" where
  "keyword VACUUM = ''VACUUM''"
| "keyword VACUUM_FULL = ''VACUUM_FULL''"
| "keyword ANALYZE_ONLY = ''ANALYZE''"

text \<open>
  The Statement Composer in the words of the specification: the token list is the mode
  keyword, then the extra modifiers verbatim if present, then the comma-joined selected
  target list if non-empty; the tokens are joined with a single space. Modifiers are
  present when a non-empty string is given; the targets are joined with a comma and a
  space.
\<close>

definition statement_spec :: "mode \<Rightarrow> string option \<Rightarrow> string list \<Rightarrow> string" where
  "statement_spec md extra_modifiers selected_targets =
     join '' ''
       ([keyword md]
        @ (case extra_modifiers of None \<Rightarrow> [] | Some e \<Rightarrow> if e \<noteq> [] then [e] else [])
        @ (if selected_targets \<noteq> [] then [join '', '' selected_targets] else []))"

text \<open>
  A row is a candidate when no target list is given or its quoted name is in the list.
  The skip-period block selects a row when it does not end in \<^verbatim>\<open>continue\<close>.
\<close>

definition candidate :: "string list option \<Rightarrow> row \<Rightarrow> bool" where
  "candidate tbl_list row =
     (if truthy_list tbl_list then quoted_name (row0 row) (row1 row) \<in> set (elems tbl_list)
      else True)"

definition selected :: "module \<Rightarrow> datetime \<Rightarrow> row \<Rightarrow> bool" where
  "selected m now row =
     (case skip_period_block m now row False of
        Inr (Some c) \<Rightarrow> True
      | _ \<Rightarrow> False)"

text \<open>The quoted names of the candidates of an explicit target list, in the order of the rows.\<close>

definition candidate_names :: "string list option \<Rightarrow> row list \<Rightarrow> string list" where
  "candidate_names tbl_list rows =
     (if truthy_list tbl_list
      then map (\<lambda>r. quoted_name (row0 r) (row1 r)) (filter (candidate tbl_list) rows)
      else [])"

text \<open>
  The schema and the name \<^verbatim>\<open>__check_table\<close> reads off a target (its first three
  statements: the split at every dot, then the last two parts without their double
  quotes), whether the catalog has a relation of that schema and name, and the message of
  the failure. For a target with a dot inside a quoted identifier these are not the
  schema and the name of the relation the target names.
\<close>

definition schema_and_name :: "string \<Rightarrow> error + string \<times> string" where
  "schema_and_name tblname =
     (let tmp = split CHR ''.'' tblname in
      case item_minus2 tmp of
        Inl e \<Rightarrow> Inl e
      | Inr t2 \<Rightarrow>
        (case item_minus1 tmp of
           Inl e \<Rightarrow> Inl e
         | Inr t1 \<Rightarrow> Inr (strip [dq] t2, strip [dq] t1)))"

definition exists_in :: "cursor \<Rightarrow> string \<Rightarrow> bool" where
  "exists_in cur tblname =
     (case schema_and_name tblname of
        Inl e \<Rightarrow> False
      | Inr (table_schema, table_name) \<Rightarrow>
          (table_schema, table_name) \<in> set (information_schema_tables cur))"

definition not_exist_msg :: "string \<Rightarrow> string" where
  "not_exist_msg tblname =
     (case schema_and_name tblname of
        Inl e \<Rightarrow> []
      | Inr (table_schema, table_name) \<Rightarrow>
          ''table '' @ table_name @ '' in schema '' @ table_schema @ '' does not exist'')"

text \<open>
  The Skip-Period Filter in the words of the specification: with the threshold
  \<open>now - skip_period\<close> and an absent timestamp treated as epoch zero, a relation is
  processed if the threshold is greater than \<^verbatim>\<open>last_analyze\<close> or greater than
  \<^verbatim>\<open>last_autoanalyze\<close> in the mode \<^verbatim>\<open>ANALYZE_ONLY\<close> (\<^verbatim>\<open>last_vacuum\<close> and \<^verbatim>\<open>last_autovacuum\<close> in the
  mode \<^verbatim>\<open>VACUUM\<close>), and skipped only when neither holds. In the mode \<^verbatim>\<open>VACUUM_FULL\<close> nothing
  is skipped.
\<close>

definition spec_processes :: "mode \<Rightarrow> datetime \<Rightarrow> int \<Rightarrow> relation_stat \<Rightarrow> bool" where
  "spec_processes md now period s =
     (let threshold = now - of_int period in
      case md of
        ANALYZE_ONLY \<Rightarrow>
          threshold > seconds_or_0 (last_analyze s) \<or> threshold > seconds_or_0 (last_autoanalyze s)
      | VACUUM \<Rightarrow>
          threshold > seconds_or_0 (last_vacuum s) \<or> threshold > seconds_or_0 (last_autovacuum s)
      | VACUUM_FULL \<Rightarrow> True)"

section \<open>Example databases and requests\<close>

text \<open>
  A database with two relations: \<^verbatim>\<open>public.t1\<close> was last processed at second 1000,
  \<^verbatim>\<open>public.t2\<close> at second 9000 (all four timestamps alike). The clock reads 10000.
\<close>

definition t1_name :: string where
  "t1_name = quoted_name ''public'' ''t1''"

definition t2_name :: string where
  "t2_name = quoted_name ''public'' ''t2''"

definition stat_of :: "string \<Rightarrow> datetime option \<Rightarrow> datetime option \<Rightarrow> datetime option
    \<Rightarrow> datetime option \<Rightarrow> relation_stat" where
  "stat_of name v av a aa =
     \<lparr>schemaname = ''public'', relname = name, last_vacuum = v, last_autovacuum = av,
      last_analyze = a, last_autoanalyze = aa\<rparr>"

definition pg_two :: cursor where
  "pg_two =
     \<lparr>information_schema_tables = [(''public'', ''t1''), (''public'', ''t2'')],
      pg_stat_user_tables =
        [stat_of ''t1'' (Some 1000) (Some 1000) (Some 1000) (Some 1000),
         stat_of ''t2'' (Some 9000) (Some 9000) (Some 9000) (Some 9000)],
      runs = (\<lambda>q. True),
      received = []\<rparr>"

text \<open>A database whose only relation was vacuumed at second 9000 and never analyzed.\<close>

definition pg_vacuumed :: cursor where
  "pg_vacuumed =
     \<lparr>information_schema_tables = [(''public'', ''t1'')],
      pg_stat_user_tables = [stat_of ''t1'' (Some 9000) (Some 9000) None None],
      runs = (\<lambda>q. True),
      received = []\<rparr>"

text \<open>A database whose only relation has no timestamp at all.\<close>

definition pg_never :: cursor where
  "pg_never =
     \<lparr>information_schema_tables = [(''public'', ''t1'')],
      pg_stat_user_tables = [stat_of ''t1'' None None None None],
      runs = (\<lambda>q. True),
      received = []\<rparr>"

text \<open>
  A database whose only relation is \<^verbatim>\<open>t1\<close> in the schema \<^verbatim>\<open>schema\<close>; there is no schema
  \<^verbatim>\<open>my.schema\<close>.
\<close>

definition pg_dotted :: cursor where
  "pg_dotted =
     \<lparr>information_schema_tables = [(''schema'', ''t1'')],
      pg_stat_user_tables =
        [\<lparr>schemaname = ''schema'', relname = ''t1'', last_vacuum = None, last_autovacuum = None,
          last_analyze = None, last_autoanalyze = None\<rparr>],
      runs = (\<lambda>q. True),
      received = []\<rparr>"

definition clock_10000 :: "nat \<Rightarrow> datetime" where
  "clock_10000 i = 10000"

text \<open>A plain request, and the variations of it the examples use.\<close>

definition request :: module where
  "request =
     \<lparr>tables = None, skip_period = None, analyze_only = None, full = None,
      additional_args = None, check_mode = False\<rparr>"

definition vacuum_hourly :: module where
  "vacuum_hourly = request\<lparr>skip_period := Some 3600\<rparr>"

definition check_hourly :: module where
  "check_hourly = request\<lparr>skip_period := Some 3600, check_mode := True\<rparr>"

definition analyze_minutely :: module where
  "analyze_minutely = request\<lparr>skip_period := Some 60, analyze_only := Some True\<rparr>"

definition full_hourly :: module where
  "full_hourly = request\<lparr>skip_period := Some 3600, full := Some True, additional_args := Some ''analyze''\<rparr>"

definition quote_public :: "string \<Rightarrow> string \<Rightarrow> error + string" where
  "quote_public ident id_type = Inr (join ''.'' (map (\<lambda>p. [dq] @ p @ [dq]) (split CHR ''.'' ident)))"

section \<open>The statement composer\<close>

lemma statement_spec_flat:
  "statement_spec md ex ts =
     keyword md
     @ (case ex of None \<Rightarrow> [] | Some e \<Rightarrow> if e \<noteq> [] then '' '' @ e else [])
     @ (if ts \<noteq> [] then '' '' @ join '', '' ts else [])"
  by (cases ex) (simp_all add: statement_spec_def)

lemma query_of_opt_list:
  "query_of (opt_list_of m) targets = statement_spec (mode_of m) (additional_args m) targets"
  by (cases "additional_args m")
     (simp_all add: query_of_def opt_list_of_def statement_spec_def mode_of_def Let_def)

text \<open>
  Claim C10. The statement \<^verbatim>\<open>do\<close> composes is the token list of the specification joined
  with single spaces: the keyword of the mode (\<^verbatim>\<open>VACUUM\<close>, \<^verbatim>\<open>VACUUM_FULL\<close> or \<^verbatim>\<open>ANALYZE\<close>)
  first, then the additional arguments when they are a non-empty string, then the
  selected targets joined with commas when there are any. Written out, every token after
  the keyword follows exactly one space. The string depends on the request only through
  its mode and its additional arguments: two requests that agree on both compose the
  same string for the same targets.
\<close>

theorem statement_composition:
  "query_of (opt_list_of m) targets = statement_spec (mode_of m) (additional_args m) targets
   \<and> query_of (opt_list_of m) targets =
       keyword (mode_of m)
       @ (case additional_args m of None \<Rightarrow> [] | Some e \<Rightarrow> if e \<noteq> [] then '' '' @ e else [])
       @ (if targets \<noteq> [] then '' '' @ join '', '' targets else [])
   \<and> (mode_of m = mode_of m' \<and> additional_args m = additional_args m'
        \<longrightarrow> query_of (opt_list_of m) targets = query_of (opt_list_of m') targets)"
  by (simp add: query_of_opt_list statement_spec_flat)

theorem statement_composition_witness:
  "mode_of full_hourly = mode_of (full_hourly\<lparr>skip_period := None, check_mode := True\<rparr>)
   \<and> query_of (opt_list_of full_hourly) [t1_name, t2_name]
       = ''VACUUM_FULL analyze '' @ t1_name @ '', '' @ t2_name
   \<and> query_of (opt_list_of (full_hourly\<lparr>skip_period := None, check_mode := True\<rparr>)) [t1_name, t2_name]
       = query_of (opt_list_of full_hourly) [t1_name, t2_name]"
proof -
  have h: "mode_of full_hourly = mode_of (full_hourly\<lparr>skip_period := None, check_mode := True\<rparr>)
           \<and> additional_args full_hourly
               = additional_args (full_hourly\<lparr>skip_period := None, check_mode := True\<rparr>)"
    by code_simp
  have v: "statement_spec (mode_of full_hourly) (additional_args full_hourly) [t1_name, t2_name]
           = ''VACUUM_FULL analyze '' @ t1_name @ '', '' @ t2_name"
    by code_simp
  note t = statement_composition
         [where m = full_hourly and targets = "[t1_name, t2_name]"
            and m' = "full_hourly\<lparr>skip_period := None, check_mode := True\<rparr>"]
  have a: "query_of (opt_list_of full_hourly) [t1_name, t2_name]
           = ''VACUUM_FULL analyze '' @ t1_name @ '', '' @ t2_name"
    using t [THEN conjunct1] v by (rule trans)
  have b: "query_of (opt_list_of full_hourly) [t1_name, t2_name]
           = query_of (opt_list_of (full_hourly\<lparr>skip_period := None, check_mode := True\<rparr>))
               [t1_name, t2_name]"
    using t h by blast
  show ?thesis
    using h [THEN conjunct1] a b [symmetric] by (intro conjI)
qed

section \<open>The loop over the statistics rows\<close>

lemma skip_period_block_off:
  "truthy_bool (full m) \<or> \<not> truthy_int (skip_period m)
   \<Longrightarrow> skip_period_block m now row chg = Inr (Some chg)"
  by (cases "skip_period m") (auto simp: skip_period_block_def)

lemma rows_loop_off:
  assumes "truthy_bool (full m) \<or> \<not> truthy_int (skip_period m)"
  shows "rows_loop m tbl_list clock i rows (tmp, chg)
         = Inr (tmp @ candidate_names tbl_list rows, chg)"
  using assms
proof (induction rows arbitrary: i tmp)
  case Nil
  then show ?case by (simp add: candidate_names_def)
next
  case (Cons r rows)
  have b: "skip_period_block m now r c = Inr (Some c)" for now c
    using Cons.prems by (rule skip_period_block_off)
  show ?case
    using Cons.IH[OF Cons.prems]
    by (simp add: row_step_def b candidate_names_def candidate_def)
qed

text \<open>
  Claim C6. When \<^verbatim>\<open>full\<close> is set (the mode \<^verbatim>\<open>VACUUM_FULL\<close> is \<^verbatim>\<open>full\<close> without
  \<^verbatim>\<open>analyze_only\<close>), the skip-period block selects every row, whatever \<^verbatim>\<open>skip_period\<close>, the
  clock and the timestamps are, and leaves \<^verbatim>\<open>changed\<close> as it was; the loop therefore adds
  the name of every candidate row to the target list, in the order of the rows.
\<close>

theorem full_mode_selects_every_candidate:
  assumes "truthy_bool (full m)"
  shows "selected m now row
         \<and> skip_period_block m now row chg = Inr (Some chg)
         \<and> rows_loop m tbl_list clock i rows (tmp, chg)
             = Inr (tmp @ candidate_names tbl_list rows, chg)"
  using assms
  by (simp add: selected_def skip_period_block_off rows_loop_off)

theorem full_mode_selects_every_candidate_witness:
  "truthy_bool (full full_hourly)
   \<and> truthy_int (skip_period full_hourly)
   \<and> mode_of full_hourly = VACUUM_FULL
   \<and> rows_loop full_hourly (Some [t1_name, t2_name]) clock_10000 0
        (stat_user_tables (Vacuum pg_two)) ([], False)
       = Inr ([t1_name, t2_name], False)"
proof -
  have h: "truthy_bool (full full_hourly)"
    by code_simp
  have p: "truthy_int (skip_period full_hourly) \<and> mode_of full_hourly = VACUUM_FULL"
    by code_simp
  have c: "candidate_names (Some [t1_name, t2_name]) (stat_user_tables (Vacuum pg_two))
           = [t1_name, t2_name]"
    by code_simp
  note t = full_mode_selects_every_candidate
         [OF h, where tbl_list = "Some [t1_name, t2_name]" and clock = clock_10000 and i = 0
            and rows = "stat_user_tables (Vacuum pg_two)" and tmp = "[]" and chg = False]
  have r: "rows_loop full_hourly (Some [t1_name, t2_name]) clock_10000 0
             (stat_user_tables (Vacuum pg_two)) ([], False)
           = Inr ([t1_name, t2_name], False)"
    using t c by (simp only: append_Nil)
  show ?thesis
    using h p r by (simp only: simp_thms)
qed


section \<open>The existence checks\<close>

lemma executed_append: "executed (xs @ ys) = executed xs @ executed ys"
  by (induction xs rule: executed.induct) simp_all

lemma executed_map_Fetch: "executed (map Fetch qs) = []"
  by (induction qs) simp_all

lemma check_table_frame:
  assumes "check_table self tbl = (r, self')"
  shows "\<exists>qs. self' = self\<lparr>cursor := (cursor self)\<lparr>received := received (cursor self) @ map Fetch qs\<rparr>\<rparr>"
proof -
  have n: "self = self\<lparr>cursor := (cursor self)\<lparr>received := received (cursor self) @ map Fetch []\<rparr>\<rparr>"
    by simp
  have o: "sent (Fetch q) self
           = self\<lparr>cursor := (cursor self)\<lparr>received := received (cursor self) @ map Fetch [q]\<rparr>\<rparr>" for q
    by (simp add: sent_def)
  from assms have "self' = self \<or> (\<exists>q. self' = sent (Fetch q) self)"
    by (auto simp: check_table_def exec_sql_exists_def Let_def split: sum.splits if_splits)
  then show ?thesis
    using n o by metis
qed

lemma check_table_result:
  "fst (check_table self tbl)
   = (case schema_and_name tbl of
        Inl e \<Rightarrow> Inl e
      | Inr sn \<Rightarrow> if exists_in (cursor self) tbl then Inr True else Inl (FailJson (not_exist_msg tbl)))"
  by (auto simp: check_table_def schema_and_name_def exists_in_def not_exist_msg_def
                 exec_sql_exists_def Let_def split: sum.splits)

lemma exists_in_frame:
  "exists_in ((cursor self)\<lparr>received := x\<rparr>) tbl = exists_in (cursor self) tbl"
  by (simp add: exists_in_def split: sum.splits)

lemma check_tables_frame:
  "check_tables self tbls = (r, self')
   \<Longrightarrow> \<exists>qs. self' = self\<lparr>cursor := (cursor self)\<lparr>received := received (cursor self) @ map Fetch qs\<rparr>\<rparr>"
proof (induction tbls arbitrary: self)
  case Nil
  then have "self' = self\<lparr>cursor := (cursor self)\<lparr>received := received (cursor self) @ map Fetch []\<rparr>\<rparr>"
    by simp
  then show ?case by blast
next
  case (Cons t tbls)
  obtain r1 s1 where c: "check_table self t = (r1, s1)"
    by (cases "check_table self t")
  from check_table_frame[OF c] obtain q1 where
    s1: "s1 = self\<lparr>cursor := (cursor self)\<lparr>received := received (cursor self) @ map Fetch q1\<rparr>\<rparr>"
    by blast
  show ?case
  proof (cases r1)
    case (Inl e)
    with Cons.prems c have "self' = s1" by simp
    with s1 show ?thesis by blast
  next
    case (Inr b)
    with Cons.prems c have "check_tables s1 tbls = (r, self')" by simp
    from Cons.IH[OF this] obtain q2 where
      "self' = s1\<lparr>cursor := (cursor s1)\<lparr>received := received (cursor s1) @ map Fetch q2\<rparr>\<rparr>"
      by blast
    with s1 have "self' = self\<lparr>cursor := (cursor self)\<lparr>received := received (cursor self) @ map Fetch (q1 @ q2)\<rparr>\<rparr>"
      by simp
    then show ?thesis by blast
  qed
qed

lemma check_tables_all_exist:
  "\<forall>t\<in>set tbls. exists_in (cursor self) t \<Longrightarrow> \<exists>self'. check_tables self tbls = (Inr (), self')"
proof (induction tbls arbitrary: self)
  case Nil
  then show ?case by simp
next
  case (Cons t tbls)
  obtain r1 s1 where c: "check_table self t = (r1, s1)"
    by (cases "check_table self t")
  from Cons.prems have "exists_in (cursor self) t" by simp
  then have r1: "r1 = Inr True"
    using check_table_result[of self t] c
    by (auto simp: exists_in_def split: sum.splits)
  from check_table_frame[OF c] obtain q1 where
    s1: "s1 = self\<lparr>cursor := (cursor self)\<lparr>received := received (cursor self) @ map Fetch q1\<rparr>\<rparr>"
    by blast
  have "\<forall>u\<in>set tbls. exists_in (cursor s1) u"
    using Cons.prems s1 by (simp add: exists_in_frame)
  from Cons.IH[OF this] show ?case
    using c r1 by simp
qed

lemma check_tables_some_missing:
  "\<exists>t\<in>set tbls. \<not> exists_in (cursor self) t
   \<Longrightarrow> \<exists>e self'. check_tables self tbls = (Inl e, self')
        \<and> ((\<forall>t\<in>set tbls. 2 \<le> length (split CHR ''.'' t))
             \<longrightarrow> (\<exists>t\<in>set tbls. \<not> exists_in (cursor self) t \<and> e = FailJson (not_exist_msg t)))"
proof (induction tbls arbitrary: self)
  case Nil
  then show ?case by simp
next
  case (Cons t tbls)
  obtain r1 s1 where c: "check_table self t = (r1, s1)"
    by (cases "check_table self t")
  from check_table_frame[OF c] obtain q1 where
    s1: "s1 = self\<lparr>cursor := (cursor self)\<lparr>received := received (cursor self) @ map Fetch q1\<rparr>\<rparr>"
    by blast
  have fr: "exists_in (cursor s1) u = exists_in (cursor self) u" for u
    using s1 by (simp add: exists_in_frame)
  have wf: "2 \<le> length (split CHR ''.'' t) \<Longrightarrow> \<exists>sn. schema_and_name t = Inr sn"
    by (simp add: schema_and_name_def item_minus2_def item_minus1_def Let_def)
  show ?case
  proof (cases "exists_in (cursor self) t")
    case True
    then have r1: "r1 = Inr True"
      using check_table_result[of self t] c
      by (auto simp: exists_in_def split: sum.splits)
    from True Cons.prems have "\<exists>u\<in>set tbls. \<not> exists_in (cursor s1) u"
      by (auto simp: fr)
    from Cons.IH[OF this] show ?thesis
      using c r1 by (auto simp: fr)
  next
    case False
    have "\<exists>e. r1 = Inl e \<and> (2 \<le> length (split CHR ''.'' t) \<longrightarrow> e = FailJson (not_exist_msg t))"
      using check_table_result[of self t] c False wf
      by (auto split: sum.splits)
    then show ?thesis
      using c False by auto
  qed
qed

section \<open>The method \<^verbatim>\<open>do\<close>, step by step\<close>

lemma checks_frame:
  assumes "(if truthy_list tbl_list then check_tables self (elems tbl_list) else (Inr (), self)) = (r, s1)"
  shows "\<exists>qs. s1 = self\<lparr>cursor := (cursor self)\<lparr>received := received (cursor self) @ map Fetch qs\<rparr>\<rparr>"
proof (cases "truthy_list tbl_list")
  case True
  with assms show ?thesis by (simp add: check_tables_frame)
next
  case False
  with assms have "s1 = self\<lparr>cursor := (cursor self)\<lparr>received := received (cursor self) @ map Fetch []\<rparr>\<rparr>"
    by simp
  then show ?thesis by blast
qed

lemma do_checks_fail:
  assumes "(if truthy_list tbl_list then check_tables self (elems tbl_list) else (Inr (), self)) = (Inl e, s1)"
  shows "do m clock self tbl_list = (Inl e, s1)"
  using assms by (simp add: do_def)

lemma do_loop_fail:
  assumes "(if truthy_list tbl_list then check_tables self (elems tbl_list) else (Inr (), self)) = (Inr u, s1)"
      and "rows_loop m tbl_list clock 0 (stat_user_tables s1) ([], changed s1) = Inl e"
  shows "do m clock self tbl_list = (Inl e, s1)"
  using assms by (simp add: do_def)

lemma do_after_loop:
  assumes "(if truthy_list tbl_list then check_tables self (elems tbl_list) else (Inr (), self)) = (Inr u, s1)"
      and "rows_loop m tbl_list clock 0 (stat_user_tables s1) ([], changed s1) = Inr (tmp, chg)"
  shows "do m clock self tbl_list =
           (if check_mode m
            then (Inr (), s1\<lparr>changed := (if truthy_int (skip_period m) then chg else True),
                              executed_queries := executed_queries s1 @ [query_of (opt_list_of m) tmp]\<rparr>)
            else if runs (cursor s1) (query_of (opt_list_of m) tmp)
            then (Inr (), (sent (Execute (query_of (opt_list_of m) tmp)) s1)
                            \<lparr>executed_queries := executed_queries s1 @ [query_of (opt_list_of m) tmp],
                             changed := True\<rparr>)
            else (Inl (ExecutionError (query_of (opt_list_of m) tmp)),
                  (sent (Execute (query_of (opt_list_of m) tmp)) s1)\<lparr>changed := chg\<rparr>))"
  using assms by (simp add: do_def exec_sql_ddl_def sent_def Let_def)

section \<open>Targets that the lookup does not find\<close>

text \<open>
  When a target list is given and the lookup of \<^verbatim>\<open>__check_table\<close> does not find one of the
  targets, \<^verbatim>\<open>do\<close> ends in a failure; when every target splits into two parts at least, the
  failure is the \<^verbatim>\<open>fail_json\<close> whose message names the relation and the schema the lookup
  read off a target it did not find. Nothing was executed and nothing recorded.
\<close>

lemma failed_lookup_ends_the_run:
  assumes "truthy_list tbl_list"
      and "\<exists>t\<in>set (elems tbl_list). \<not> exists_in (cursor self) t"
  shows "(\<exists>e. fst (do m clock self tbl_list) = Inl e)
         \<and> ((\<forall>t\<in>set (elems tbl_list). 2 \<le> length (split CHR ''.'' t))
              \<longrightarrow> (\<exists>t\<in>set (elems tbl_list). \<not> exists_in (cursor self) t
                     \<and> fst (do m clock self tbl_list) = Inl (FailJson (not_exist_msg t))))
         \<and> executed_queries (snd (do m clock self tbl_list)) = executed_queries self
         \<and> executed (received (cursor (snd (do m clock self tbl_list))))
             = executed (received (cursor self))
         \<and> changed (snd (do m clock self tbl_list)) = changed self"
proof -
  from check_tables_some_missing[OF assms(2)] obtain e s1 where
    c: "check_tables self (elems tbl_list) = (Inl e, s1)" and
    w: "(\<forall>t\<in>set (elems tbl_list). 2 \<le> length (split CHR ''.'' t))
        \<longrightarrow> (\<exists>t\<in>set (elems tbl_list). \<not> exists_in (cursor self) t \<and> e = FailJson (not_exist_msg t))"
    by blast
  from c assms(1) have
    k: "(if truthy_list tbl_list then check_tables self (elems tbl_list) else (Inr (), self)) = (Inl e, s1)"
    by simp
  have d: "do m clock self tbl_list = (Inl e, s1)"
    using k by (rule do_checks_fail)
  from check_tables_frame[OF c] obtain qs where
    s1: "s1 = self\<lparr>cursor := (cursor self)\<lparr>received := received (cursor self) @ map Fetch qs\<rparr>\<rparr>"
    by blast
  have f: "executed_queries s1 = executed_queries self
           \<and> executed (received (cursor s1)) = executed (received (cursor self))
           \<and> changed s1 = changed self"
    using s1 by (simp add: executed_append executed_map_Fetch)
  show ?thesis
    using d w f by simp
qed

section \<open>Check mode\<close>

text \<open>
  Claim C8. In check mode without a skip period (\<^verbatim>\<open>skip_period\<close> absent or 0), \<^verbatim>\<open>do\<close> never
  hands a statement to the server, whatever the input. When every target exists the run
  completes, \<^verbatim>\<open>changed\<close> is true, and the composed statement is appended to
  \<^verbatim>\<open>executed_queries\<close>; its targets are all candidates, since no filtering takes place.
\<close>

theorem check_mode_without_skip_period:
  assumes "check_mode m"
      and "\<not> truthy_int (skip_period m)"
  shows "executed (received (cursor (snd (do m clock self tbl_list))))
           = executed (received (cursor self))
         \<and> ((\<forall>t\<in>set (elems tbl_list). exists_in (cursor self) t)
              \<longrightarrow> fst (do m clock self tbl_list) = Inr ()
                  \<and> changed (snd (do m clock self tbl_list))
                  \<and> executed_queries (snd (do m clock self tbl_list))
                      = executed_queries self
                        @ [statement_spec (mode_of m) (additional_args m)
                             (candidate_names tbl_list (stat_user_tables self))])"
proof -
  obtain r s1 where
    k: "(if truthy_list tbl_list then check_tables self (elems tbl_list) else (Inr (), self)) = (r, s1)"
    by (cases "if truthy_list tbl_list then check_tables self (elems tbl_list) else (Inr (), self)")
  from checks_frame[OF k] obtain qs where
    s1: "s1 = self\<lparr>cursor := (cursor self)\<lparr>received := received (cursor self) @ map Fetch qs\<rparr>\<rparr>"
    by blast
  have f: "executed (received (cursor s1)) = executed (received (cursor self))
           \<and> executed_queries s1 = executed_queries self
           \<and> stat_user_tables s1 = stat_user_tables self"
    using s1 by (simp add: executed_append executed_map_Fetch)
  have l: "rows_loop m tbl_list clock 0 (stat_user_tables s1) ([], changed s1)
           = Inr ([] @ candidate_names tbl_list (stat_user_tables s1), changed s1)"
    using assms(2) by (simp add: rows_loop_off)
  show ?thesis
  proof (cases r)
    case (Inl e)
    with k have d: "do m clock self tbl_list = (Inl e, s1)"
      by (simp add: do_checks_fail)
    have "\<not> (\<forall>t\<in>set (elems tbl_list). exists_in (cursor self) t)"
    proof
      assume a: "\<forall>t\<in>set (elems tbl_list). exists_in (cursor self) t"
      from check_tables_all_exist[OF a] obtain s2 where
        "check_tables self (elems tbl_list) = (Inr (), s2)"
        by blast
      with k Inl show False
        by (simp split: if_splits)
    qed
    with d f show ?thesis by simp
  next
    case (Inr u)
    with k have
      k': "(if truthy_list tbl_list then check_tables self (elems tbl_list) else (Inr (), self)) = (Inr u, s1)"
      by simp
    show ?thesis
      using do_after_loop[OF k' l] assms f
      by (simp add: query_of_opt_list)
  qed
qed

theorem check_mode_without_skip_period_witness:
  "check_mode (request\<lparr>check_mode := True\<rparr>)
   \<and> \<not> truthy_int (skip_period (request\<lparr>check_mode := True\<rparr>))
   \<and> fst (do (request\<lparr>check_mode := True\<rparr>) clock_10000 (Vacuum pg_two) (Some [t2_name])) = Inr ()
   \<and> changed (snd (do (request\<lparr>check_mode := True\<rparr>) clock_10000 (Vacuum pg_two) (Some [t2_name])))
   \<and> executed_queries (snd (do (request\<lparr>check_mode := True\<rparr>) clock_10000 (Vacuum pg_two)
                                 (Some [t2_name])))
       = [''VACUUM '' @ t2_name]
   \<and> executed (received (cursor (snd (do (request\<lparr>check_mode := True\<rparr>) clock_10000 (Vacuum pg_two)
                                        (Some [t2_name])))))
       = []"
proof -
  have h1: "check_mode (request\<lparr>check_mode := True\<rparr>)"
    by code_simp
  have h2: "\<not> truthy_int (skip_period (request\<lparr>check_mode := True\<rparr>))"
    by code_simp
  have h3: "\<forall>t\<in>set (elems (Some [t2_name])). exists_in (cursor (Vacuum pg_two)) t"
    by code_simp
  have b: "executed (received (cursor (Vacuum pg_two))) = []"
    by code_simp
  have v: "executed_queries (Vacuum pg_two)
             @ [statement_spec (mode_of (request\<lparr>check_mode := True\<rparr>))
                  (additional_args (request\<lparr>check_mode := True\<rparr>))
                  (candidate_names (Some [t2_name]) (stat_user_tables (Vacuum pg_two)))]
           = [''VACUUM '' @ t2_name]"
    by code_simp
  note t = check_mode_without_skip_period
             [OF h1 h2, where clock = clock_10000 and self = "Vacuum pg_two"
                and tbl_list = "Some [t2_name]"]
  from t have e: "executed (received (cursor (snd (do (request\<lparr>check_mode := True\<rparr>) clock_10000
                                                      (Vacuum pg_two) (Some [t2_name])))))
                  = executed (received (cursor (Vacuum pg_two)))"
    by (rule conjunct1)
  from t h3 have
    c: "fst (do (request\<lparr>check_mode := True\<rparr>) clock_10000 (Vacuum pg_two) (Some [t2_name])) = Inr ()
        \<and> changed (snd (do (request\<lparr>check_mode := True\<rparr>) clock_10000 (Vacuum pg_two) (Some [t2_name])))
        \<and> executed_queries (snd (do (request\<lparr>check_mode := True\<rparr>) clock_10000 (Vacuum pg_two)
                                      (Some [t2_name])))
            = executed_queries (Vacuum pg_two)
              @ [statement_spec (mode_of (request\<lparr>check_mode := True\<rparr>))
                   (additional_args (request\<lparr>check_mode := True\<rparr>))
                   (candidate_names (Some [t2_name]) (stat_user_tables (Vacuum pg_two)))]"
    by blast
  show ?thesis
    using h1 h2 c e b v by (simp only: simp_thms)
qed

section \<open>Option validation in \<^verbatim>\<open>main\<close>\<close>

text \<open>
  Claim C7. When \<^verbatim>\<open>full\<close> is supplied together with \<^verbatim>\<open>analyze_only\<close> or with \<^verbatim>\<open>skip_period\<close>,
  \<^verbatim>\<open>main\<close> ends with the failure \<^verbatim>\<open>InvalidOptionCombination\<close> and the exit status 1, and the
  database was asked nothing: its interactions are those before the call.
\<close>

theorem full_with_exclusive_option_is_rejected:
  assumes "full supplied \<noteq> None"
      and "analyze_only supplied \<noteq> None \<or> skip_period supplied \<noteq> None"
  shows "main pg_quote_identifier clock db supplied = (Inl InvalidOptionCombination, received db)
         \<and> exit_status (fst (main pg_quote_identifier clock db supplied)) = 1"
  using assms by (auto simp: main_def AnsibleModule_def)

theorem full_with_exclusive_option_is_rejected_witness:
  "full full_hourly \<noteq> None
   \<and> skip_period full_hourly \<noteq> None
   \<and> main quote_public clock_10000 pg_two full_hourly = (Inl InvalidOptionCombination, [])
   \<and> exit_status (fst (main quote_public clock_10000 pg_two full_hourly)) = 1"
proof -
  have h1: "full full_hourly \<noteq> None"
    by code_simp
  have h2: "skip_period full_hourly \<noteq> None"
    by code_simp
  have h3: "analyze_only full_hourly \<noteq> None \<or> skip_period full_hourly \<noteq> None"
    using h2 by (rule disjI2)
  have r: "received pg_two = []"
    by code_simp
  note t = full_with_exclusive_option_is_rejected
             [OF h1 h3, where pg_quote_identifier = quote_public and clock = clock_10000
                and db = pg_two]
  have m: "main quote_public clock_10000 pg_two full_hourly = (Inl InvalidOptionCombination, [])"
    using t [THEN conjunct1] r by (simp only:)
  show ?thesis
    using h1 h2 m t [THEN conjunct2] by (intro conjI)
qed

section \<open>Runs without a target list\<close>

lemma skip_period_block_not_check:
  "\<not> check_mode m \<Longrightarrow> skip_period_block m now r chg = Inr (Some c) \<Longrightarrow> c = chg"
  by (cases "skip_period m")
     (auto simp: skip_period_block_def Let_def split: sum.splits if_splits)

lemma row_step_no_tables:
  "\<not> truthy_list tbl_list \<Longrightarrow> row_step m tbl_list now r (tmp, chg) = Inr (tmp', chg')
   \<Longrightarrow> tmp' = tmp"
  by (auto simp: row_step_def Let_def split: sum.splits option.splits)

lemma row_step_not_check:
  "\<not> check_mode m \<Longrightarrow> row_step m tbl_list now r (tmp, chg) = Inr (tmp', chg')
   \<Longrightarrow> chg' = chg"
  by (auto simp: row_step_def Let_def dest: skip_period_block_not_check
           split: sum.splits option.splits if_splits)

lemma rows_loop_no_tables:
  "\<not> truthy_list tbl_list \<Longrightarrow> rows_loop m tbl_list clock i rows (tmp, chg) = Inr (tmp', chg')
   \<Longrightarrow> tmp' = tmp"
proof (induction rows arbitrary: i tmp chg)
  case Nil
  then show ?case by simp
next
  case (Cons r rows)
  from Cons.prems(2) obtain t1 c1 where
    st: "row_step m tbl_list (clock i) r (tmp, chg) = Inr (t1, c1)" and
    lp: "rows_loop m tbl_list clock (Suc i) rows (t1, c1) = Inr (tmp', chg')"
    by (auto split: sum.splits)
  have "t1 = tmp"
    using Cons.prems(1) st by (rule row_step_no_tables)
  moreover have "tmp' = t1"
    using Cons.prems(1) lp by (rule Cons.IH)
  ultimately show ?case by simp
qed

lemma rows_loop_not_check:
  "\<not> check_mode m \<Longrightarrow> rows_loop m tbl_list clock i rows (tmp, chg) = Inr (tmp', chg')
   \<Longrightarrow> chg' = chg"
proof (induction rows arbitrary: i tmp chg)
  case Nil
  then show ?case by simp
next
  case (Cons r rows)
  from Cons.prems(2) obtain t1 c1 where
    st: "row_step m tbl_list (clock i) r (tmp, chg) = Inr (t1, c1)" and
    lp: "rows_loop m tbl_list clock (Suc i) rows (t1, c1) = Inr (tmp', chg')"
    by (auto split: sum.splits)
  have "c1 = chg"
    using Cons.prems(1) st by (rule row_step_not_check)
  moreover have "chg' = c1"
    using Cons.prems(1) lp by (rule Cons.IH)
  ultimately show ?case by simp
qed

text \<open>
  Without a target list \<^verbatim>\<open>do\<close> either ends with the exception the loop raised, or
  composes the statement of the mode and the additional arguments alone: in check mode it records the
  statement, otherwise it hands it to the server. The skip period shows in the flag
  \<^verbatim>\<open>changed\<close> of check mode only.
\<close>

lemma do_without_tables:
  assumes "\<not> truthy_list tbl_list"
  shows "(\<exists>e. rows_loop m tbl_list clock 0 (stat_user_tables self) ([], changed self) = Inl e
              \<and> do m clock self tbl_list = (Inl e, self))
         \<or> (\<exists>c. do m clock self tbl_list =
               (if check_mode m
                then (Inr (), self\<lparr>changed := c,
                                  executed_queries := executed_queries self
                                    @ [statement_spec (mode_of m) (additional_args m) []]\<rparr>)
                else if runs (cursor self) (statement_spec (mode_of m) (additional_args m) [])
                then (Inr (), (sent (Execute (statement_spec (mode_of m) (additional_args m) [])) self)
                                \<lparr>executed_queries := executed_queries self
                                   @ [statement_spec (mode_of m) (additional_args m) []],
                                 changed := True\<rparr>)
                else (Inl (ExecutionError (statement_spec (mode_of m) (additional_args m) [])),
                      sent (Execute (statement_spec (mode_of m) (additional_args m) [])) self)))"
proof -
  from assms have
    k: "(if truthy_list tbl_list then check_tables self (elems tbl_list) else (Inr (), self))
        = (Inr (), self)"
    by simp
  show ?thesis
  proof (cases "rows_loop m tbl_list clock 0 (stat_user_tables self) ([], changed self)")
    case (Inl e)
    with do_loop_fail[OF k Inl] show ?thesis
      by simp
  next
    case (Inr st)
    obtain tmp chg where st: "st = (tmp, chg)"
      by (cases st)
    with Inr have
      l: "rows_loop m tbl_list clock 0 (stat_user_tables self) ([], changed self) = Inr (tmp, chg)"
      by simp
    have tmp: "tmp = []"
      using assms l by (rule rows_loop_no_tables)
    have chg: "chg = changed self" if "\<not> check_mode m"
      using that l by (rule rows_loop_not_check)
    have "do m clock self tbl_list =
            (if check_mode m
             then (Inr (), self\<lparr>changed := (if truthy_int (skip_period m) then chg else True),
                               executed_queries := executed_queries self
                                 @ [statement_spec (mode_of m) (additional_args m) []]\<rparr>)
             else if runs (cursor self) (statement_spec (mode_of m) (additional_args m) [])
             then (Inr (), (sent (Execute (statement_spec (mode_of m) (additional_args m) [])) self)
                             \<lparr>executed_queries := executed_queries self
                                @ [statement_spec (mode_of m) (additional_args m) []],
                              changed := True\<rparr>)
             else (Inl (ExecutionError (statement_spec (mode_of m) (additional_args m) [])),
                   sent (Execute (statement_spec (mode_of m) (additional_args m) [])) self))"
      using do_after_loop[OF k l] tmp chg
      by (simp add: query_of_opt_list sent_def)
    then show ?thesis
      by (cases "check_mode m") auto
  qed
qed

section \<open>Runs on which the module departs from its documentation\<close>

text \<open>
  Claim C1, evaluated. Request: \<^verbatim>\<open>skip_period: 3600\<close>, plain \<^verbatim>\<open>VACUUM\<close>, both relations named.
  The clock reads 10000, so the threshold is 6400. All four timestamps of \<^verbatim>\<open>public.t1\<close>
  are 1000, strictly older than the threshold; those of \<^verbatim>\<open>public.t2\<close> are 9000, after it.
  The skip-period block ends in \<^verbatim>\<open>continue\<close> for \<^verbatim>\<open>t1\<close> and goes on for \<^verbatim>\<open>t2\<close>: the statement
  executed is \<^verbatim>\<open>VACUUM "public"."t2"\<close>. The relation that was not processed within the
  period is left out, the one processed within it is vacuumed.
\<close>

theorem stale_relation_is_left_out:
  "clock_10000 0 - 3600 > 1000
   \<and> \<not> clock_10000 1 - 3600 > 9000
   \<and> \<not> selected vacuum_hourly (clock_10000 0) (stat_user_tables (Vacuum pg_two) ! 0)
   \<and> selected vacuum_hourly (clock_10000 1) (stat_user_tables (Vacuum pg_two) ! 1)
   \<and> fst (do vacuum_hourly clock_10000 (Vacuum pg_two) (Some [t1_name, t2_name])) = Inr ()
   \<and> executed (received (cursor (snd (do vacuum_hourly clock_10000 (Vacuum pg_two)
                                        (Some [t1_name, t2_name])))))
       = [''VACUUM '' @ t2_name]"
  by code_simp

text \<open>
  Claim C2, evaluated. Request: \<^verbatim>\<open>analyze_only\<close> with \<^verbatim>\<open>skip_period: 60\<close>; the only relation has
  no timestamp. The block reads \<^verbatim>\<open>row[5]\<close> and then \<^verbatim>\<open>row[6]\<close> of a row whose last column is
  number 5: \<^verbatim>\<open>IndexError\<close>. The relation is not selected and nothing is executed.
\<close>

theorem never_analyzed_relation_raises:
  "last_analyze (pg_stat_user_tables pg_never ! 0) = None
   \<and> last_autoanalyze (pg_stat_user_tables pg_never ! 0) = None
   \<and> skip_period_block analyze_minutely (clock_10000 0) (stat_user_tables (Vacuum pg_never) ! 0) False
       = Inl IndexError
   \<and> \<not> selected analyze_minutely (clock_10000 0) (stat_user_tables (Vacuum pg_never) ! 0)
   \<and> fst (do analyze_minutely clock_10000 (Vacuum pg_never) (Some [t1_name])) = Inl IndexError
   \<and> executed (received (cursor (snd (do analyze_minutely clock_10000 (Vacuum pg_never)
                                        (Some [t1_name])))))
       = []"
  by code_simp

text \<open>
  Claim C3, evaluated. Request: \<^verbatim>\<open>skip_period: 3600\<close>, plain \<^verbatim>\<open>VACUUM\<close>, the one relation named.
  It was vacuumed and autovacuumed at 9000, after the threshold 6400, and never analyzed.
  The block reads columns 3 and 4 (\<^verbatim>\<open>last_autovacuum\<close> and \<^verbatim>\<open>last_analyze\<close>), finds the second
  one older than the threshold and ends in \<^verbatim>\<open>continue\<close>: the target list stays empty. The
  statement executed is then \<^verbatim>\<open>VACUUM\<close> without a target, which is the statement for the
  whole database, and \<^verbatim>\<open>changed\<close> is true.
\<close>

theorem skipped_targets_fall_back_to_whole_database:
  "\<not> selected vacuum_hourly (clock_10000 0) (stat_user_tables (Vacuum pg_vacuumed) ! 0)
   \<and> rows_loop vacuum_hourly (Some [t1_name]) clock_10000 0 (stat_user_tables (Vacuum pg_vacuumed))
        ([], False)
       = Inr ([], False)
   \<and> fst (do vacuum_hourly clock_10000 (Vacuum pg_vacuumed) (Some [t1_name])) = Inr ()
   \<and> executed (received (cursor (snd (do vacuum_hourly clock_10000 (Vacuum pg_vacuumed)
                                        (Some [t1_name])))))
       = [''VACUUM'']
   \<and> changed (snd (do vacuum_hourly clock_10000 (Vacuum pg_vacuumed) (Some [t1_name])))"
  by code_simp

text \<open>
  Claim C4, evaluated. Without a target list, \<^verbatim>\<open>analyze_only\<close> and no skip period execute
  \<^verbatim>\<open>ANALYZE\<close>; the same request with \<^verbatim>\<open>skip_period: 60\<close> raises \<^verbatim>\<open>IndexError\<close> in the first row
  and executes nothing.
\<close>

theorem skip_period_stops_analyze_without_tables:
  "fst (do (analyze_minutely\<lparr>skip_period := None\<rparr>) clock_10000 (Vacuum pg_two) None) = Inr ()
   \<and> executed (received (cursor (snd (do (analyze_minutely\<lparr>skip_period := None\<rparr>) clock_10000
                                        (Vacuum pg_two) None))))
       = [''ANALYZE'']
   \<and> fst (do analyze_minutely clock_10000 (Vacuum pg_two) None) = Inl IndexError
   \<and> executed (received (cursor (snd (do analyze_minutely clock_10000 (Vacuum pg_two) None)))) = []
   \<and> executed_queries (snd (do analyze_minutely clock_10000 (Vacuum pg_two) None)) = []"
  by code_simp

text \<open>
  Claim C5, evaluated. The target is \<^verbatim>\<open>"my.schema"."t1"\<close>, the relation \<^verbatim>\<open>t1\<close> of the schema
  \<^verbatim>\<open>my.schema\<close>, which the catalog does not have. \<^verbatim>\<open>__check_table\<close> splits the name at every
  dot, looks up the relation \<^verbatim>\<open>t1\<close> of the schema \<^verbatim>\<open>schema\<close>, finds it and returns \<^verbatim>\<open>True\<close>. The
  run does not fail: no row has the name of the target, the target list stays empty, and
  the statement executed is \<^verbatim>\<open>VACUUM\<close> without a target.
\<close>

theorem dotted_schema_passes_the_existence_check:
  "(''my.schema'', ''t1'') \<notin> set (information_schema_tables pg_dotted)
   \<and> schema_and_name (quoted_name ''my.schema'' ''t1'') = Inr (''schema'', ''t1'')
   \<and> fst (check_table (Vacuum pg_dotted) (quoted_name ''my.schema'' ''t1'')) = Inr True
   \<and> fst (do request clock_10000 (Vacuum pg_dotted) (Some [quoted_name ''my.schema'' ''t1'']))
       = Inr ()
   \<and> executed (received (cursor (snd (do request clock_10000 (Vacuum pg_dotted)
                                        (Some [quoted_name ''my.schema'' ''t1''])))))
       = [''VACUUM'']
   \<and> changed (snd (do request clock_10000 (Vacuum pg_dotted)
                       (Some [quoted_name ''my.schema'' ''t1''])))"
  by code_simp

text \<open>
  Claim C9, evaluated. Check mode, \<^verbatim>\<open>skip_period: 3600\<close>, plain \<^verbatim>\<open>VACUUM\<close>, clock 10000. With the
  target \<^verbatim>\<open>public.t2\<close>, processed at 9000, the Skip-Period Filter of the specification skips
  the only candidate, and \<^verbatim>\<open>do\<close> reports \<^verbatim>\<open>changed\<close> true. With the target \<^verbatim>\<open>public.t1\<close>,
  processed at 1000, the filter selects the candidate, and \<^verbatim>\<open>do\<close> reports \<^verbatim>\<open>changed\<close> false.
  With \<^verbatim>\<open>analyze_only\<close> in check mode the run raises \<^verbatim>\<open>IndexError\<close> and reports nothing.
\<close>

theorem check_mode_flag_is_inverted:
  "mode_of check_hourly = VACUUM
   \<and> skip_period check_hourly = Some 3600
   \<and> \<not> spec_processes VACUUM (clock_10000 1) 3600 (pg_stat_user_tables pg_two ! 1)
   \<and> fst (do check_hourly clock_10000 (Vacuum pg_two) (Some [t2_name])) = Inr ()
   \<and> changed (snd (do check_hourly clock_10000 (Vacuum pg_two) (Some [t2_name])))
   \<and> spec_processes VACUUM (clock_10000 0) 3600 (pg_stat_user_tables pg_two ! 0)
   \<and> fst (do check_hourly clock_10000 (Vacuum pg_two) (Some [t1_name])) = Inr ()
   \<and> \<not> changed (snd (do check_hourly clock_10000 (Vacuum pg_two) (Some [t1_name])))
   \<and> fst (do (check_hourly\<lparr>analyze_only := Some True\<rparr>) clock_10000 (Vacuum pg_two)
             (Some [t1_name]))
       = Inl IndexError"
  by code_simp

end
